theory Spec2Isabelle
  imports Main "HOL-Library.Sublist"
begin

section \<open>Go values of the pull-request analysis relay\<close>

text \<open>
  The service of \<^verbatim>\<open>main.go\<close> is one HTTP endpoint, \<^verbatim>\<open>/analyze-pr\<close>, behind an
  API-key gate. Handling a request reads the configuration, fetches a diff from the
  hosting API, sends it to a chat-completion provider and writes one response. The
  embedding below keeps the source's functions and names. Everything the handler asks of
  the outside (environment, JSON decoder, HTTP transport, provider client, clock) is a
  field of the record \<open>world\<close>; what the handler does to the outside is the list of
  events it returns, and a panic or \<^verbatim>\<open>log.Fatal\<close> is an outcome of its own.
\<close>

subsection \<open>Errors and number formatting\<close>

text \<open>
  A Go \<^verbatim>\<open>error\<close> is identified with its message; \<^verbatim>\<open>io.EOF\<close> is kept apart because
  \<^verbatim>\<open>io.ReadAll\<close> treats it as the regular end of a stream.
\<close>

datatype error = EOF | Errorf string

fun Error :: "error \<Rightarrow> string" where
  "Error EOF = ''EOF''"
| "Error (Errorf s) = s"

text \<open>The verb \<^verbatim>\<open>%d\<close> of \<^verbatim>\<open>fmt\<close>: decimal digits, with a minus sign below zero.\<close>

fun digits10 :: "nat \<Rightarrow> string" where
  "digits10 n =
     (if n < 10 then [char_of (48 + n)]
      else digits10 (n div 10) @ [char_of (48 + n mod 10)])"

declare digits10.simps [simp del]

definition Itoa :: "int \<Rightarrow> string" where
  "Itoa i = (if i < 0 then ''-'' @ digits10 (nat (- i)) else digits10 (nat i))"

subsection \<open>The structs of the source\<close>

record Config =
  APIKey :: string
  OpenAIKey :: string
  GithubToken :: string
  Port :: string

record PRAnalysisRequest =
  Owner :: string
  Repo :: string
  PRNumber :: int
  ModelType :: string

text \<open>An instant of \<^verbatim>\<open>time.Time\<close> is a number of nanoseconds.\<close>

type_synonym Time = int

record PRAnalysisResponse =
  Analysis :: string
  Timestamp :: Time
  ModelUsed :: string

subsection \<open>HTTP values\<close>

text \<open>
  \<^verbatim>\<open>http.Header\<close> maps a header name to its values. \<^verbatim>\<open>Get\<close> yields the first value
  and the empty string when the name is absent; \<^verbatim>\<open>Set\<close> replaces the values by one.
  Names are taken as the handler writes them (the library matches them without regard to
  case).
\<close>

type_synonym Header = "string \<Rightarrow> string list option"

definition Header_Get :: "Header \<Rightarrow> string \<Rightarrow> string" where
  "Header_Get h k = (case h k of None \<Rightarrow> [] | Some [] \<Rightarrow> [] | Some (v # vs) \<Rightarrow> v)"

definition Header_Set :: "Header \<Rightarrow> string \<Rightarrow> string \<Rightarrow> Header" where
  "Header_Set h k v = h(k \<mapsto> [v])"

record Request =
  Method :: string
  URL :: string
  Header :: Header
  Body :: string

text \<open>
  A response body is an \<^verbatim>\<open>io.Reader\<close>: the \<open>k\<close>-th call of \<^verbatim>\<open>Read\<close> delivers some
  bytes (the \<open>n\<close> of the source is their number, at most the length of the buffer) and
  possibly an error. A reader may deliver bytes together with the error, and it may
  never signal an error at all.
\<close>

type_synonym Reader = "nat \<Rightarrow> string \<times> error option"

record Response =
  StatusCode :: int
  RespBody :: Reader

text \<open>What the handler has written to its \<^verbatim>\<open>http.ResponseWriter\<close> when it returns.\<close>

datatype payload = Text string | JSON PRAnalysisResponse

record ResponseWriter =
  Code :: int
  ContentType :: string
  Written :: payload

text \<open>
  \<^verbatim>\<open>http.Error\<close> sets a plain-text content type, writes the status and prints the
  message followed by a newline.
\<close>

definition http_Error :: "string \<Rightarrow> int \<Rightarrow> ResponseWriter" where
  "http_Error msg code =
     \<lparr>Code = code, ContentType = ''text/plain; charset=utf-8'',
      Written = Text (msg @ [CHR 0x0A])\<rparr>"

subsection \<open>The chat-completion client\<close>

record ChatCompletionMessage =
  Role :: string
  Content :: string

record ChatCompletionRequest =
  Model :: string
  Messages :: "ChatCompletionMessage list"

record ChatCompletionChoice =
  Message :: ChatCompletionMessage

record ChatCompletionResponse =
  Choices :: "ChatCompletionChoice list"

definition openai_GPT4 :: string where
  "openai_GPT4 = ''gpt-4''"

definition openai_ChatMessageRoleUser :: string where
  "openai_ChatMessageRoleUser = ''user''"

subsection \<open>The outside world, events and outcomes\<close>

text \<open>
  The world is fixed while one request is handled. Its fields are what the source reads
  from outside:
  \<^item> \<open>dotenv_Load\<close> is the result of \<^verbatim>\<open>godotenv.Load()\<close>, and \<open>Getenv\<close> is the
    environment after it (\<^verbatim>\<open>os.Getenv\<close> yields the empty string for an unset name);
  \<^item> \<open>json_Decode\<close> is \<^verbatim>\<open>json.NewDecoder(r.Body).Decode\<close> applied to the bytes of
    the request body;
  \<^item> \<open>url_Parse\<close> is the error of \<^verbatim>\<open>http.NewRequest\<close> for a URL, if any;
  \<^item> \<open>http_Do\<close> is the transport behind \<^verbatim>\<open>client.Do\<close>;
  \<^item> \<open>CreateChatCompletion\<close> is the provider behind the client made with a key;
  \<^item> \<open>time_Now\<close> is the clock read by \<^verbatim>\<open>time.Now()\<close>.
\<close>

record world =
  dotenv_Load :: "error option"
  Getenv :: "string \<Rightarrow> string"
  json_Decode :: "string \<Rightarrow> error + PRAnalysisRequest"
  url_Parse :: "string \<Rightarrow> error option"
  http_Do :: "Request \<Rightarrow> error + Response"
  CreateChatCompletion :: "string \<Rightarrow> ChatCompletionRequest \<Rightarrow> error + ChatCompletionResponse"
  time_Now :: Time

datatype event =
    Log string
  | HTTPDo Request
  | ChatCompletion string ChatCompletionRequest

fun is_network :: "event \<Rightarrow> bool" where
  "is_network (Log s) = False"
| "is_network (HTTPDo req) = True"
| "is_network (ChatCompletion k req) = True"

text \<open>
  A call returns, panics (the runtime error of an index out of range; the HTTP server
  recovers it and drops the connection, so no response is written) or ends the process
  (\<^verbatim>\<open>log.Fatal\<close> prints and calls \<^verbatim>\<open>os.Exit(1)\<close>).
\<close>

datatype 'a outcome = Returns 'a | Panics string | Exits

section \<open>The functions of main.go\<close>

subsection \<open>loadConfig\<close>

definition loadConfig :: "world \<Rightarrow> error + Config" where
  "loadConfig w =
     (case dotenv_Load w of
        Some err \<Rightarrow> Inl (Errorf (''error loading .env file: '' @ Error err))
      | None \<Rightarrow>
          Inr \<lparr>APIKey = Getenv w ''API_KEY'',
               OpenAIKey = Getenv w ''OPENAI_API_KEY'',
               GithubToken = Getenv w ''GITHUB_TOKEN'',
               Port = Getenv w ''PORT''\<rparr>)"

subsection \<open>Reading a body\<close>

text \<open>
  The loop of \<^verbatim>\<open>fetchPRChanges\<close>: read into the buffer, append the bytes read when
  there are any, stop at the first error of any kind. It runs for ever on a reader that
  never signals an error, hence the option.
\<close>

partial_function (option) read_loop :: "Reader \<Rightarrow> nat \<Rightarrow> string \<Rightarrow> string option" where
  "read_loop body k diffBuilder =
     (let n = length (fst (body k));
          diffBuilder' = (if n > 0 then diffBuilder @ take n (fst (body k)) else diffBuilder)
      in if snd (body k) \<noteq> None then Some diffBuilder'
         else read_loop body (Suc k) diffBuilder')"

declare read_loop.simps [code]

text \<open>
  \<^verbatim>\<open>io.ReadAll\<close> of the standard library: it reads until an error, returns the bytes
  read so far, and reports every error but \<^verbatim>\<open>io.EOF\<close>.
\<close>

partial_function (option) ReadAll :: "Reader \<Rightarrow> nat \<Rightarrow> string \<Rightarrow> (string \<times> error option) option" where
  "ReadAll body k b =
     (let b' = b @ fst (body k)
      in if snd (body k) \<noteq> None
         then (if snd (body k) = Some EOF then Some (b', None) else Some (b', snd (body k)))
         else ReadAll body (Suc k) b')"

declare ReadAll.simps [code]

subsection \<open>fetchPRChanges\<close>

definition http_NewRequest :: "world \<Rightarrow> string \<Rightarrow> string \<Rightarrow> error + Request" where
  "http_NewRequest w method url =
     (case url_Parse w url of
        Some err \<Rightarrow> Inl err
      | None \<Rightarrow> Inr \<lparr>Method = method, URL = url, Header = Map.empty, Body = []\<rparr>)"

definition github_request :: "Config \<Rightarrow> Request \<Rightarrow> Request" where
  "github_request config req =
     req\<lparr>Header :=
            Header_Set
              (Header_Set (Header req) ''Authorization'' (''token '' @ GithubToken config))
              ''Accept'' ''application/vnd.github.v3.diff''\<rparr>"

definition github_url :: "string \<Rightarrow> string \<Rightarrow> int \<Rightarrow> string" where
  "github_url owner repo prNumber =
     ''https://api.github.com/repos/'' @ owner @ ''/'' @ repo @ ''/pulls/'' @ Itoa prNumber"

definition fetchPRChanges ::
  "world \<Rightarrow> string \<Rightarrow> string \<Rightarrow> int \<Rightarrow> ((error + string) outcome \<times> event list) option" where
  "fetchPRChanges w owner repo prNumber =
     (let l0 = Log (''Fetching PR changes for '' @ owner @ ''/'' @ repo @ '' #'' @ Itoa prNumber)
      in case loadConfig w of
        Inl err \<Rightarrow>
          Some (Returns (Inl err), [l0, Log (''Config loading failed: '' @ Error err)])
      | Inr config \<Rightarrow>
          (let url = github_url owner repo prNumber
           in case http_NewRequest w ''GET'' url of
             Inl err \<Rightarrow>
               Some (Returns (Inl err), [l0, Log (''Failed to create request: '' @ Error err)])
           | Inr req0 \<Rightarrow>
               (let req = github_request config req0
                in case http_Do w req of
                  Inl err \<Rightarrow>
                    Some (Returns (Inl err),
                      [l0, HTTPDo req,
                       Log (''Failed to make request to github api: '' @ Error err)])
                | Inr resp \<Rightarrow>
                    if StatusCode resp \<noteq> 200 then
                      (case ReadAll (RespBody resp) 0 [] of
                         None \<Rightarrow> None
                       | Some (bodyBytes, Some err) \<Rightarrow>
                           Some (Exits, [l0, HTTPDo req, Log (Error err)])
                       | Some (bodyBytes, None) \<Rightarrow>
                           Some (Returns (Inl (Errorf (''GitHub API returned status: ''
                                                        @ Itoa (StatusCode resp)))),
                             [l0, HTTPDo req,
                              Log (''GitHub API returned status: '' @ Itoa (StatusCode resp)
                                   @ '' '' @ bodyBytes)]))
                    else
                      (case read_loop (RespBody resp) 0 [] of
                         None \<Rightarrow> None
                       | Some diff \<Rightarrow>
                           Some (Returns (Inr diff),
                             [l0, HTTPDo req, Log ''PR changes fetched successfully''])))))"

subsection \<open>analyzeChanges\<close>

definition chat_request :: "string \<Rightarrow> ChatCompletionRequest" where
  "chat_request changes =
     \<lparr>Model = openai_GPT4,
      Messages =
        [\<lparr>Role = openai_ChatMessageRoleUser,
          Content =
            ''Please analyze the following code changes and provide a detailed review:''
            @ [CHR 0x0A, CHR 0x0A] @ changes\<rparr>]\<rparr>"

definition analyzeChanges ::
  "world \<Rightarrow> string \<Rightarrow> string \<Rightarrow> (error + string) outcome \<times> event list" where
  "analyzeChanges w changes modelType =
     (case loadConfig w of
        Inl err \<Rightarrow> (Returns (Inl err), [])
      | Inr config \<Rightarrow>
          if modelType = ''openai'' then
            (let call = ChatCompletion (OpenAIKey config) (chat_request changes)
             in case CreateChatCompletion w (OpenAIKey config) (chat_request changes) of
               Inl err \<Rightarrow> (Returns (Inl err), [call])
             | Inr resp \<Rightarrow>
                 (case Choices resp of
                    [] \<Rightarrow> (Panics ''index out of range [0] with length 0'', [call])
                  | c # cs \<Rightarrow> (Returns (Inr (Content (Message c))), [call])))
          else if modelType = ''claude'' then
            (Returns (Inl (Errorf ''Claude integration not implemented yet'')), [])
          else
            (Returns (Inl (Errorf (''unsupported model type: '' @ modelType))), []))"

subsection \<open>analyzePRHandler, validateAPIKey and the route of main\<close>

type_synonym handled = "(ResponseWriter outcome \<times> event list) option"

definition analyzePRHandler :: "world \<Rightarrow> Request \<Rightarrow> handled" where
  "analyzePRHandler w r =
     (if Method r \<noteq> ''POST'' then Some (Returns (http_Error ''Method not allowed'' 405), [])
      else case json_Decode w (Body r) of
        Inl err \<Rightarrow> Some (Returns (http_Error ''Invalid request body'' 400), [])
      | Inr req \<Rightarrow>
          (case fetchPRChanges w (Owner req) (Repo req) (PRNumber req) of
             None \<Rightarrow> None
           | Some (Exits, evs) \<Rightarrow> Some (Exits, evs)
           | Some (Panics p, evs) \<Rightarrow> Some (Panics p, evs)
           | Some (Returns (Inl err), evs) \<Rightarrow>
               Some (Returns (http_Error (''Error fetching PR changes: '' @ Error err) 500), evs)
           | Some (Returns (Inr changes), evs) \<Rightarrow>
               (case analyzeChanges w changes (ModelType req) of
                  (Exits, evs') \<Rightarrow> Some (Exits, evs @ evs')
                | (Panics p, evs') \<Rightarrow> Some (Panics p, evs @ evs')
                | (Returns (Inl err), evs') \<Rightarrow>
                    Some (Returns (http_Error (''Error analyzing changes: '' @ Error err) 500),
                      evs @ evs')
                | (Returns (Inr analysis), evs') \<Rightarrow>
                    Some (Returns
                        \<lparr>Code = 200, ContentType = ''application/json'',
                         Written = JSON \<lparr>Analysis = analysis, Timestamp = time_Now w,
                                         ModelUsed = ModelType req\<rparr>\<rparr>,
                      evs @ evs'))))"

definition validateAPIKey :: "(world \<Rightarrow> Request \<Rightarrow> handled) \<Rightarrow> world \<Rightarrow> Request \<Rightarrow> handled" where
  "validateAPIKey next_handler w r =
     (let apiKey = Header_Get (Header r) ''X-API-Key''
      in case loadConfig w of
        Inl err \<Rightarrow> Some (Returns (http_Error ''Internal server error'' 500), [])
      | Inr config \<Rightarrow>
          if apiKey \<noteq> APIKey config then Some (Returns (http_Error ''Unauthorized'' 401), [])
          else next_handler w r)"

text \<open>The handler that \<^verbatim>\<open>main\<close> registers for \<^verbatim>\<open>/analyze-pr\<close>.\<close>

definition analyze_pr_route :: "world \<Rightarrow> Request \<Rightarrow> handled" where
  "analyze_pr_route = validateAPIKey analyzePRHandler"

text \<open>The port \<^verbatim>\<open>main\<close> listens on.\<close>

definition listen_port :: "Config \<Rightarrow> string" where
  "listen_port config = (if Port config = [] then ''8080'' else Port config)"

subsection \<open>Observations of a handled request\<close>

definition status_of :: "handled \<Rightarrow> int option" where
  "status_of h = (case h of Some (Returns rw, evs) \<Rightarrow> Some (Code rw) | _ \<Rightarrow> None)"

definition written_of :: "handled \<Rightarrow> payload option" where
  "written_of h = (case h of Some (Returns rw, evs) \<Rightarrow> Some (Written rw) | _ \<Rightarrow> None)"

definition network_calls :: "handled \<Rightarrow> event list" where
  "network_calls h = (case h of Some (oc, evs) \<Rightarrow> filter is_network evs | None \<Rightarrow> [])"


subsection \<open>The bytes a reader delivers\<close>

text \<open>The bytes delivered by the calls \<open>i\<close> to \<open>n\<close> of \<^verbatim>\<open>Read\<close>, in order.\<close>

definition delivered :: "Reader \<Rightarrow> nat \<Rightarrow> nat \<Rightarrow> string" where
  "delivered body i n = concat (map (\<lambda>j. fst (body j)) [i..<Suc n])"


section \<open>Example worlds\<close>

text \<open>
  A configured environment, a request body with a given model tag and a decoder that
  accepts it, a transport and a provider with fixed answers, a provider response with one
  choice, and three response bodies: a diff delivered in two reads, the second one
  together with the end of the stream; a body whose read fails; a short text.
\<close>

definition ex_getenv :: "string \<Rightarrow> string" where
  "ex_getenv k =
     (if k = ''API_KEY'' then ''s3cret''
      else if k = ''OPENAI_API_KEY'' then ''sk-test''
      else if k = ''GITHUB_TOKEN'' then ''ghp-test''
      else [])"

definition ex_request_body :: "string \<Rightarrow> string" where
  \<open>ex_request_body tag =
     ''{"owner":"octo","repo":"demo","pr_number":7,"model_type":"'' @ tag @ ''"}''\<close>

definition ex_world ::
  "(string \<Rightarrow> string) \<Rightarrow> string \<Rightarrow> (error + Response) \<Rightarrow> (error + ChatCompletionResponse) \<Rightarrow> world" where
  "ex_world env tag github provider =
     \<lparr>dotenv_Load = None,
      Getenv = env,
      json_Decode = (\<lambda>b. if b = ex_request_body tag
                          then Inr \<lparr>Owner = ''octo'', Repo = ''demo'', PRNumber = 7, ModelType = tag\<rparr>
                          else Inl (Errorf ''unexpected end of JSON input'')),
      url_Parse = (\<lambda>u. None),
      http_Do = (\<lambda>req. github),
      CreateChatCompletion = (\<lambda>k req. provider),
      time_Now = 1700000000000000000\<rparr>"

definition ex_call :: "string \<Rightarrow> string list option \<Rightarrow> string \<Rightarrow> Request" where
  "ex_call method key tag =
     \<lparr>Method = method, URL = ''/analyze-pr'', Header = (\<lambda>k. if k = ''X-API-Key'' then key else None),
      Body = ex_request_body tag\<rparr>"

definition ex_lgtm :: ChatCompletionResponse where
  "ex_lgtm = \<lparr>Choices = [\<lparr>Message = \<lparr>Role = ''assistant'', Content = ''LGTM''\<rparr>\<rparr>]\<rparr>"

definition ex_diff_body :: Reader where
  "ex_diff_body k = (if k = 0 then (''diff --git '', None) else (''a/x b/x'', Some EOF))"

definition ex_broken_body :: Reader where
  "ex_broken_body k = ([], Some (Errorf ''unexpected EOF''))"

definition ex_text_body :: Reader where
  "ex_text_body k = (''Not Found'', Some EOF)"



section \<open>Reading a response body\<close>

lemma delivered_last: "delivered body n n = fst (body n)"
  by (simp add: delivered_def)

lemma delivered_step: "i < n \<Longrightarrow> delivered body i n = fst (body i) @ delivered body (Suc i) n"
  by (simp add: delivered_def upt_conv_Cons)

lemma read_loop_upto:
  assumes "\<And>j. i \<le> j \<Longrightarrow> j < n \<Longrightarrow> snd (body j) = None"
    and "snd (body n) \<noteq> None" and "i \<le> n"
  shows "read_loop body i acc = Some (acc @ delivered body i n)"
  using assms
proof (induction "n - i" arbitrary: i acc)
  case 0
  then have "i = n" by simp
  with 0 show ?case
    by (subst read_loop.simps) (simp add: delivered_last Let_def)
next
  case (Suc d)
  then have lt: "i < n" by simp
  with Suc.prems have none: "snd (body i) = None" by simp
  have "read_loop body (Suc i) (acc @ fst (body i))
          = Some ((acc @ fst (body i)) @ delivered body (Suc i) n)"
  proof (rule Suc.hyps(1))
    show "d = n - Suc i" using Suc.hyps(2) by simp
    show "\<And>j. Suc i \<le> j \<Longrightarrow> j < n \<Longrightarrow> snd (body j) = None" using Suc.prems(1) by simp
    show "snd (body n) \<noteq> None" by (rule Suc.prems(2))
    show "Suc i \<le> n" using lt by simp
  qed
  with none lt show ?case
    by (subst read_loop.simps) (auto simp add: delivered_step Let_def)
qed

lemma ReadAll_upto:
  assumes "\<And>j. i \<le> j \<Longrightarrow> j < n \<Longrightarrow> snd (body j) = None"
    and "snd (body n) \<noteq> None" and "i \<le> n"
  shows "ReadAll body i b =
           Some (b @ delivered body i n, if snd (body n) = Some EOF then None else snd (body n))"
  using assms
proof (induction "n - i" arbitrary: i b)
  case 0
  then have "i = n" by simp
  with 0 show ?case
    by (subst ReadAll.simps) (simp add: delivered_last Let_def)
next
  case (Suc d)
  then have lt: "i < n" by simp
  with Suc.prems have none: "snd (body i) = None" by simp
  have "ReadAll body (Suc i) (b @ fst (body i))
          = Some ((b @ fst (body i)) @ delivered body (Suc i) n,
                  if snd (body n) = Some EOF then None else snd (body n))"
  proof (rule Suc.hyps(1))
    show "d = n - Suc i" using Suc.hyps(2) by simp
    show "\<And>j. Suc i \<le> j \<Longrightarrow> j < n \<Longrightarrow> snd (body j) = None" using Suc.prems(1) by simp
    show "snd (body n) \<noteq> None" by (rule Suc.prems(2))
    show "Suc i \<le> n" using lt by simp
  qed
  with none lt show ?case
    by (subst ReadAll.simps) (simp add: delivered_step Let_def)
qed

lemma read_loop_never:
  assumes "\<forall>j. snd (body j) = None"
  shows "read_loop body k acc = None"
proof (cases "read_loop body k acc")
  case None then show ?thesis .
next
  case (Some y)
  have "\<not> (\<forall>j. snd (body j) = None)"
  proof (rule read_loop.raw_induct [where P = "\<lambda>b k acc y. \<not> (\<forall>j. snd (b j) = None)", OF _ Some], goal_cases)
    case (1 f b k acc y)
    show ?case
    proof
      assume a: "\<forall>j. snd (b j) = None"
      with 1(2) obtain acc' where "f b (Suc k) acc' = Some y"
        by (simp add: Let_def split: if_splits)
      from 1(1) [OF this] a show False by blast
    qed
  qed
  with assms show ?thesis by blast
qed

section \<open>Facts about the configuration and the example worlds\<close>

lemma loadConfig_Inr:
  "loadConfig w = Inr config \<longleftrightarrow>
     dotenv_Load w = None \<and>
     config = \<lparr>APIKey = Getenv w ''API_KEY'', OpenAIKey = Getenv w ''OPENAI_API_KEY'',
               GithubToken = Getenv w ''GITHUB_TOKEN'', Port = Getenv w ''PORT''\<rparr>"
  by (auto simp: loadConfig_def split: option.splits)

lemma loadConfig_ex_world:
  "loadConfig (ex_world env tag github provider) =
     Inr \<lparr>APIKey = env ''API_KEY'', OpenAIKey = env ''OPENAI_API_KEY'',
          GithubToken = env ''GITHUB_TOKEN'', Port = env ''PORT''\<rparr>"
  by (simp add: loadConfig_def ex_world_def)

lemma ex_NewRequest:
  "http_NewRequest (ex_world env tag github provider) ''GET'' u =
     Inr \<lparr>Method = ''GET'', URL = u, Header = Map.empty, Body = []\<rparr>"
  by (simp add: http_NewRequest_def ex_world_def)

lemma ex_http_Do: "http_Do (ex_world env tag github provider) req = github"
  by (simp add: ex_world_def)

lemma ex_decode:
  "json_Decode (ex_world env tag github provider) (Body (ex_call method key tag)) =
     Inr \<lparr>Owner = ''octo'', Repo = ''demo'', PRNumber = 7, ModelType = tag\<rparr>"
  by (simp add: ex_world_def ex_call_def)

lemma ex_key: "Header_Get (Header (ex_call method (Some [k]) tag)) ''X-API-Key'' = k"
  by (simp add: ex_call_def Header_Get_def)

lemma ex_no_key: "Header_Get (Header (ex_call method None tag)) ''X-API-Key'' = []"
  by (simp add: ex_call_def Header_Get_def)

lemma ex_method: "Method (ex_call method key tag) = method"
  by (simp add: ex_call_def)

lemma ex_diff_delivered: "delivered ex_diff_body 0 (Suc 0) = ''diff --git a/x b/x''"
  by (simp add: delivered_def ex_diff_body_def)

lemma Code_http_Error: "Code (http_Error msg code) = code"
  by (simp add: http_Error_def)

lemma Written_http_Error: "Written (http_Error msg code) = Text (msg @ [CHR 0x0A])"
  by (simp add: http_Error_def)

section \<open>The authentication gate\<close>

lemma route_authorized:
  assumes "loadConfig w = Inr config"
    and "Header_Get (Header r) ''X-API-Key'' = APIKey config"
  shows "analyze_pr_route w r = analyzePRHandler w r"
  using assms by (simp add: analyze_pr_route_def validateAPIKey_def)

text \<open>
  C10. Once the configuration is loaded, the gate hands the request to the next handler
  if the value of the header \<^verbatim>\<open>X-API-Key\<close> equals the configured \<^verbatim>\<open>API_KEY\<close>, and
  answers 401 without running the next handler if it differs: it authorizes exactly on
  string equality. In particular, with \<^verbatim>\<open>API_KEY\<close> unset (the empty string) a request
  without the header (read as the empty string) is handed on.
\<close>

theorem validateAPIKey_authorizes_iff_equal:
  assumes "loadConfig w = Inr config"
  shows "(Header_Get (Header r) ''X-API-Key'' = APIKey config \<longrightarrow>
            validateAPIKey next_handler w r = next_handler w r)
       \<and> (Header_Get (Header r) ''X-API-Key'' \<noteq> APIKey config \<longrightarrow>
            validateAPIKey next_handler w r = Some (Returns (http_Error ''Unauthorized'' 401), []))
       \<and> (Getenv w ''API_KEY'' = [] \<and> Header r ''X-API-Key'' = None \<longrightarrow>
            validateAPIKey next_handler w r = next_handler w r)"
proof -
  have key: "APIKey config = Getenv w ''API_KEY''"
    using assms by (simp add: loadConfig_Inr)
  show ?thesis
    using assms key by (auto simp add: validateAPIKey_def Header_Get_def)
qed

text \<open>
  Witness of C10: with \<^verbatim>\<open>API_KEY\<close> unset a GET without the header reaches the handler
  (which answers 405); with the key \<^verbatim>\<open>s3cret\<close> configured, the same GET with that key
  reaches the handler and with another key it is answered 401.
\<close>

theorem validateAPIKey_authorizes_iff_equal_witness:
  "Getenv (ex_world (\<lambda>k. []) ''openai'' (Inl (Errorf ''dial tcp: connection refused'')) (Inr ex_lgtm))
       ''API_KEY'' = []
   \<and> Header (ex_call ''GET'' None ''openai'') ''X-API-Key'' = None
   \<and> validateAPIKey analyzePRHandler
        (ex_world (\<lambda>k. []) ''openai'' (Inl (Errorf ''dial tcp: connection refused'')) (Inr ex_lgtm))
        (ex_call ''GET'' None ''openai'')
      = Some (Returns (http_Error ''Method not allowed'' 405), [])
   \<and> validateAPIKey analyzePRHandler
        (ex_world ex_getenv ''openai'' (Inl (Errorf ''dial tcp: connection refused'')) (Inr ex_lgtm))
        (ex_call ''GET'' (Some [''s3cret'']) ''openai'')
      = Some (Returns (http_Error ''Method not allowed'' 405), [])
   \<and> validateAPIKey analyzePRHandler
        (ex_world ex_getenv ''openai'' (Inl (Errorf ''dial tcp: connection refused'')) (Inr ex_lgtm))
        (ex_call ''GET'' (Some [''guess'']) ''openai'')
      = Some (Returns (http_Error ''Unauthorized'' 401), [])"
  using validateAPIKey_authorizes_iff_equal [OF loadConfig_ex_world,
          of "ex_call ''GET'' None ''openai''" "\<lambda>k. []" analyzePRHandler
             "''openai''" "Inl (Errorf ''dial tcp: connection refused'')" "Inr ex_lgtm"]
        validateAPIKey_authorizes_iff_equal [OF loadConfig_ex_world,
          of "ex_call ''GET'' (Some [''s3cret'']) ''openai''" ex_getenv analyzePRHandler
             "''openai''" "Inl (Errorf ''dial tcp: connection refused'')" "Inr ex_lgtm"]
        validateAPIKey_authorizes_iff_equal [OF loadConfig_ex_world,
          of "ex_call ''GET'' (Some [''guess'']) ''openai''" ex_getenv analyzePRHandler
             "''openai''" "Inl (Errorf ''dial tcp: connection refused'')" "Inr ex_lgtm"]
  by (simp add: ex_key ex_no_key ex_getenv_def analyzePRHandler_def ex_method)
     (simp add: ex_world_def ex_call_def)

text \<open>
  C1, as amended. For every request to \<^verbatim>\<open>/analyze-pr\<close> whose \<^verbatim>\<open>X-API-Key\<close> value
  (the empty string when the header is missing) differs from the configured shared
  secret, the response is 401 and the handling produces no event at all, hence no diff
  fetch and no provider call.
\<close>

theorem gate_rejects_mismatch_before_network:
  assumes "loadConfig w = Inr config"
    and "Header_Get (Header r) ''X-API-Key'' \<noteq> APIKey config"
  shows "analyze_pr_route w r = Some (Returns (http_Error ''Unauthorized'' 401), [])
       \<and> status_of (analyze_pr_route w r) = Some 401
       \<and> network_calls (analyze_pr_route w r) = []"
  using assms
  by (simp add: analyze_pr_route_def validateAPIKey_def status_of_def network_calls_def
      Code_http_Error)

text \<open>
  Witness of C1 as amended: with the key \<^verbatim>\<open>s3cret\<close> configured, a POST with another key
  and a POST without the header are both answered 401, with no network call.
\<close>

theorem gate_rejects_mismatch_before_network_witness:
  "status_of (analyze_pr_route
      (ex_world ex_getenv ''openai'' (Inr \<lparr>StatusCode = 200, RespBody = ex_diff_body\<rparr>) (Inr ex_lgtm))
      (ex_call ''POST'' (Some [''guess'']) ''openai'')) = Some 401
   \<and> network_calls (analyze_pr_route
      (ex_world ex_getenv ''openai'' (Inr \<lparr>StatusCode = 200, RespBody = ex_diff_body\<rparr>) (Inr ex_lgtm))
      (ex_call ''POST'' (Some [''guess'']) ''openai'')) = []
   \<and> status_of (analyze_pr_route
      (ex_world ex_getenv ''openai'' (Inr \<lparr>StatusCode = 200, RespBody = ex_diff_body\<rparr>) (Inr ex_lgtm))
      (ex_call ''POST'' None ''openai'')) = Some 401
   \<and> network_calls (analyze_pr_route
      (ex_world ex_getenv ''openai'' (Inr \<lparr>StatusCode = 200, RespBody = ex_diff_body\<rparr>) (Inr ex_lgtm))
      (ex_call ''POST'' None ''openai'')) = []"
  using gate_rejects_mismatch_before_network [OF loadConfig_ex_world,
          of "ex_call ''POST'' (Some [''guess'']) ''openai''" ex_getenv
             "''openai''" "Inr \<lparr>StatusCode = 200, RespBody = ex_diff_body\<rparr>" "Inr ex_lgtm"]
        gate_rejects_mismatch_before_network [OF loadConfig_ex_world,
          of "ex_call ''POST'' None ''openai''" ex_getenv
             "''openai''" "Inr \<lparr>StatusCode = 200, RespBody = ex_diff_body\<rparr>" "Inr ex_lgtm"]
  by (simp add: ex_key ex_no_key ex_getenv_def status_of_def network_calls_def Code_http_Error)

section \<open>The handler behind the gate\<close>

lemma handler_post:
  assumes "Method r = ''POST''" and "json_Decode w (Body r) = Inr req"
  shows "analyzePRHandler w r =
     (case fetchPRChanges w (Owner req) (Repo req) (PRNumber req) of
        None \<Rightarrow> None
      | Some (Exits, evs) \<Rightarrow> Some (Exits, evs)
      | Some (Panics p, evs) \<Rightarrow> Some (Panics p, evs)
      | Some (Returns (Inl err), evs) \<Rightarrow>
          Some (Returns (http_Error (''Error fetching PR changes: '' @ Error err) 500), evs)
      | Some (Returns (Inr changes), evs) \<Rightarrow>
          (case analyzeChanges w changes (ModelType req) of
             (Exits, evs') \<Rightarrow> Some (Exits, evs @ evs')
           | (Panics p, evs') \<Rightarrow> Some (Panics p, evs @ evs')
           | (Returns (Inl err), evs') \<Rightarrow>
               Some (Returns (http_Error (''Error analyzing changes: '' @ Error err) 500),
                 evs @ evs')
           | (Returns (Inr analysis), evs') \<Rightarrow>
               Some (Returns
                   \<lparr>Code = 200, ContentType = ''application/json'',
                    Written = JSON \<lparr>Analysis = analysis, Timestamp = time_Now w,
                                    ModelUsed = ModelType req\<rparr>\<rparr>,
                 evs @ evs')))"
  using assms by (simp add: analyzePRHandler_def)

lemma ex_fetch_refused:
  "fetchPRChanges (ex_world env tag (Inl err) provider) ''octo'' ''demo'' 7 =
     Some (Returns (Inl err),
       [Log (''Fetching PR changes for octo/demo #'' @ Itoa 7),
        HTTPDo (github_request
                 \<lparr>APIKey = env ''API_KEY'', OpenAIKey = env ''OPENAI_API_KEY'',
                  GithubToken = env ''GITHUB_TOKEN'', Port = env ''PORT''\<rparr>
                 \<lparr>Method = ''GET'', URL = github_url ''octo'' ''demo'' 7, Header = Map.empty,
                  Body = []\<rparr>),
        Log (''Failed to make request to github api: '' @ Error err)])"
  by (simp add: fetchPRChanges_def loadConfig_ex_world ex_NewRequest ex_http_Do)

text \<open>
  Counterexample to C1 as stated: with \<^verbatim>\<open>API_KEY\<close> unset, a POST that has no
  \<^verbatim>\<open>X-API-Key\<close> header passes the gate; the handler calls the hosting API (here the
  connection is refused) and answers 500, not 401.
\<close>

theorem missing_key_passes_unset_secret_counterexample:
  "Header (ex_call ''POST'' None ''openai'') ''X-API-Key'' = None
   \<and> status_of (analyze_pr_route
        (ex_world (\<lambda>k. []) ''openai'' (Inl (Errorf ''dial tcp: connection refused'')) (Inr ex_lgtm))
        (ex_call ''POST'' None ''openai'')) = Some 500
   \<and> length (network_calls (analyze_pr_route
        (ex_world (\<lambda>k. []) ''openai'' (Inl (Errorf ''dial tcp: connection refused'')) (Inr ex_lgtm))
        (ex_call ''POST'' None ''openai''))) = 1"
proof -
  have "analyze_pr_route
        (ex_world (\<lambda>k. []) ''openai'' (Inl (Errorf ''dial tcp: connection refused'')) (Inr ex_lgtm))
        (ex_call ''POST'' None ''openai'')
      = analyzePRHandler
        (ex_world (\<lambda>k. []) ''openai'' (Inl (Errorf ''dial tcp: connection refused'')) (Inr ex_lgtm))
        (ex_call ''POST'' None ''openai'')"
    by (rule route_authorized [OF loadConfig_ex_world]) (simp add: ex_no_key)
  then show ?thesis
    by (simp add: handler_post [OF ex_method ex_decode] ex_fetch_refused status_of_def
        network_calls_def Code_http_Error)
       (simp add: ex_call_def)
qed

text \<open>
  C8, as amended. For every request to \<^verbatim>\<open>/analyze-pr\<close> that passes the authentication
  gate (the configuration loads and the \<^verbatim>\<open>X-API-Key\<close> value equals the configured secret)
  and whose method is not POST, the response status is 405.
\<close>

theorem non_post_behind_gate_is_405:
  assumes "loadConfig w = Inr config"
    and "Header_Get (Header r) ''X-API-Key'' = APIKey config"
    and "Method r \<noteq> ''POST''"
  shows "analyze_pr_route w r = Some (Returns (http_Error ''Method not allowed'' 405), [])
       \<and> status_of (analyze_pr_route w r) = Some 405"
  using assms
  by (simp add: route_authorized analyzePRHandler_def status_of_def Code_http_Error)

text \<open>Witness of C8 as amended: a GET with the configured key is answered 405.\<close>

theorem non_post_behind_gate_is_405_witness:
  "status_of (analyze_pr_route
      (ex_world ex_getenv ''openai'' (Inr \<lparr>StatusCode = 200, RespBody = ex_diff_body\<rparr>) (Inr ex_lgtm))
      (ex_call ''GET'' (Some [''s3cret'']) ''openai'')) = Some 405"
  using non_post_behind_gate_is_405 [OF loadConfig_ex_world,
          of "ex_call ''GET'' (Some [''s3cret'']) ''openai''" ex_getenv
             "''openai''" "Inr \<lparr>StatusCode = 200, RespBody = ex_diff_body\<rparr>" "Inr ex_lgtm"]
  by (simp add: ex_key ex_getenv_def ex_method status_of_def Code_http_Error)

text \<open>
  Counterexample to C8 as stated: a GET with a wrong key is answered 401 by the gate,
  which runs before the method check.
\<close>

theorem unauthenticated_get_is_401_counterexample:
  "Method (ex_call ''GET'' (Some [''guess'']) ''openai'') \<noteq> ''POST''
   \<and> status_of (analyze_pr_route
      (ex_world ex_getenv ''openai'' (Inr \<lparr>StatusCode = 200, RespBody = ex_diff_body\<rparr>) (Inr ex_lgtm))
      (ex_call ''GET'' (Some [''guess'']) ''openai'')) = Some 401"
  by (simp add: ex_method analyze_pr_route_def validateAPIKey_def loadConfig_ex_world ex_key
      ex_getenv_def status_of_def Code_http_Error)

section \<open>The diff fetcher\<close>

lemma read_loop_Some:
  assumes "read_loop body 0 [] = Some s"
  shows "\<exists>n. (\<forall>j<n. snd (body j) = None) \<and> snd (body n) \<noteq> None \<and> s = delivered body 0 n"
proof -
  have "\<not> (\<forall>j. snd (body j) = None)"
  proof
    assume "\<forall>j. snd (body j) = None"
    then have "read_loop body 0 [] = None" by (rule read_loop_never)
    with assms show False by simp
  qed
  then obtain m where m: "snd (body m) \<noteq> None" by blast
  define n where "n = (LEAST j. snd (body j) \<noteq> None)"
  have n: "snd (body n) \<noteq> None" unfolding n_def using m by (rule LeastI)
  have lt: "\<forall>j<n. snd (body j) = None"
    unfolding n_def using not_less_Least by blast
  have "read_loop body 0 [] = Some ([] @ delivered body 0 n)"
    using lt n by (intro read_loop_upto) simp_all
  with assms have "s = delivered body 0 n" by simp
  with n lt show ?thesis by blast
qed

lemma fetchPRChanges_ok:
  assumes "loadConfig w = Inr config"
    and "http_NewRequest w ''GET'' (github_url owner repo prNumber) = Inr req0"
    and "http_Do w (github_request config req0) = Inr resp"
    and "StatusCode resp = 200"
    and "\<forall>j<n. snd (RespBody resp j) = None"
    and "snd (RespBody resp n) \<noteq> None"
  shows "fetchPRChanges w owner repo prNumber =
           Some (Returns (Inr (delivered (RespBody resp) 0 n)),
                 [Log (''Fetching PR changes for '' @ owner @ ''/'' @ repo @ '' #'' @ Itoa prNumber),
                  HTTPDo (github_request config req0),
                  Log ''PR changes fetched successfully''])"
proof -
  have "read_loop (RespBody resp) 0 [] = Some ([] @ delivered (RespBody resp) 0 n)"
    using assms(5,6) by (intro read_loop_upto) simp_all
  with assms(1-4) show ?thesis
    by (simp add: fetchPRChanges_def)
qed

lemma fetchPRChanges_status:
  assumes "loadConfig w = Inr config"
    and "http_NewRequest w ''GET'' (github_url owner repo prNumber) = Inr req0"
    and "http_Do w (github_request config req0) = Inr resp"
    and "StatusCode resp \<noteq> 200"
    and "\<forall>j<n. snd (RespBody resp j) = None"
    and "snd (RespBody resp n) \<noteq> None"
  shows "map_option fst (fetchPRChanges w owner repo prNumber) =
           Some (if snd (RespBody resp n) = Some EOF
                 then Returns (Inl (Errorf (''GitHub API returned status: ''
                                            @ Itoa (StatusCode resp))))
                 else Exits)"
proof -
  have "ReadAll (RespBody resp) 0 [] =
          Some ([] @ delivered (RespBody resp) 0 n,
                if snd (RespBody resp n) = Some EOF then None else snd (RespBody resp n))"
    using assms(5,6) by (intro ReadAll_upto) simp_all
  with assms(1-4,6) show ?thesis
    by (auto simp add: fetchPRChanges_def)
qed

lemma fetchPRChanges_status_error:
  assumes "loadConfig w = Inr config"
    and "http_NewRequest w ''GET'' (github_url owner repo prNumber) = Inr req0"
    and "http_Do w (github_request config req0) = Inr resp"
    and "StatusCode resp \<noteq> 200"
    and "\<forall>j<n. snd (RespBody resp j) = None"
    and "snd (RespBody resp n) = Some EOF"
  shows "map_option fst (fetchPRChanges w owner repo prNumber) =
           Some (Returns (Inl (Errorf (''GitHub API returned status: '' @ Itoa (StatusCode resp)))))"
  using fetchPRChanges_status [OF assms(1-5)] assms(6) by simp

lemma fetchPRChanges_fatal:
  assumes "loadConfig w = Inr config"
    and "http_NewRequest w ''GET'' (github_url owner repo prNumber) = Inr req0"
    and "http_Do w (github_request config req0) = Inr resp"
    and "StatusCode resp \<noteq> 200"
    and "\<forall>j<n. snd (RespBody resp j) = None"
    and "snd (RespBody resp n) = Some (Errorf e)"
  shows "map_option fst (fetchPRChanges w owner repo prNumber) = Some Exits"
  using fetchPRChanges_status [OF assms(1-5)] assms(6) by simp

text \<open>
  When the body of a response with another status than 200 is read to its end, an
  authenticated, well-formed POST is answered 500 and the message carries the upstream
  status code.
\<close>

lemma handler_upstream_status:
  assumes "loadConfig w = Inr config"
    and "Header_Get (Header r) ''X-API-Key'' = APIKey config"
    and "Method r = ''POST''"
    and "json_Decode w (Body r) = Inr req"
    and "http_NewRequest w ''GET'' (github_url (Owner req) (Repo req) (PRNumber req)) = Inr req0"
    and "http_Do w (github_request config req0) = Inr resp"
    and "StatusCode resp \<noteq> 200"
    and "\<forall>j<n. snd (RespBody resp j) = None"
    and "snd (RespBody resp n) = Some EOF"
  shows "status_of (analyze_pr_route w r) = Some 500
       \<and> written_of (analyze_pr_route w r) =
           Some (Text (''Error fetching PR changes: GitHub API returned status: ''
                       @ Itoa (StatusCode resp) @ [CHR 0x0A]))"
proof -
  have "map_option fst (fetchPRChanges w (Owner req) (Repo req) (PRNumber req)) =
           Some (Returns (Inl (Errorf (''GitHub API returned status: '' @ Itoa (StatusCode resp)))))"
    using assms(1,5-9) by (rule fetchPRChanges_status_error)
  then obtain evs where
    "fetchPRChanges w (Owner req) (Repo req) (PRNumber req) =
       Some (Returns (Inl (Errorf (''GitHub API returned status: '' @ Itoa (StatusCode resp)))), evs)"
    by (cases "fetchPRChanges w (Owner req) (Repo req) (PRNumber req)") auto
  then show ?thesis
    by (simp add: route_authorized [OF assms(1,2)] handler_post [OF assms(3,4)]
        status_of_def written_of_def Code_http_Error Written_http_Error)
qed

lemma ex_fetch_diff:
  "fetchPRChanges (ex_world env tag (Inr \<lparr>StatusCode = 200, RespBody = ex_diff_body\<rparr>) provider)
       ''octo'' ''demo'' 7 =
     Some (Returns (Inr ''diff --git a/x b/x''),
       [Log (''Fetching PR changes for octo/demo #'' @ Itoa 7),
        HTTPDo (github_request
                 \<lparr>APIKey = env ''API_KEY'', OpenAIKey = env ''OPENAI_API_KEY'',
                  GithubToken = env ''GITHUB_TOKEN'', Port = env ''PORT''\<rparr>
                 \<lparr>Method = ''GET'', URL = github_url ''octo'' ''demo'' 7, Header = Map.empty,
                  Body = []\<rparr>),
        Log ''PR changes fetched successfully''])"
  using fetchPRChanges_ok [OF loadConfig_ex_world ex_NewRequest ex_http_Do,
      of "\<lparr>StatusCode = 200, RespBody = ex_diff_body\<rparr>" "Suc 0" env tag provider
         "''octo''" "''demo''" 7]
  by (simp add: ex_diff_delivered) (simp add: ex_diff_body_def)

text \<open>
  C4. A diff fetch succeeds with the string \<open>s\<close> exactly when the configuration loads,
  the request is created, the hosting API answers 200 and some read of the body signals
  an error (the end of the stream or any other); \<open>s\<close> is then the concatenation of the
  bytes delivered by every read up to and including that one, unchanged: whatever the
  number of reads, and also when the last read delivers bytes together with the end of
  the stream.
\<close>

theorem fetchPRChanges_returns_delivered_bytes:
  "fetchPRChanges w owner repo prNumber = Some (Returns (Inr s), evs) \<longleftrightarrow>
     (\<exists>config req0 resp n.
        loadConfig w = Inr config \<and>
        http_NewRequest w ''GET'' (github_url owner repo prNumber) = Inr req0 \<and>
        http_Do w (github_request config req0) = Inr resp \<and>
        StatusCode resp = 200 \<and>
        (\<forall>j<n. snd (RespBody resp j) = None) \<and> snd (RespBody resp n) \<noteq> None \<and>
        s = delivered (RespBody resp) 0 n \<and>
        evs = [Log (''Fetching PR changes for '' @ owner @ ''/'' @ repo @ '' #'' @ Itoa prNumber),
               HTTPDo (github_request config req0),
               Log ''PR changes fetched successfully''])"
  (is "?L \<longleftrightarrow> ?R")
proof
  assume ?R
  then obtain config req0 resp n where h:
    "loadConfig w = Inr config"
    "http_NewRequest w ''GET'' (github_url owner repo prNumber) = Inr req0"
    "http_Do w (github_request config req0) = Inr resp"
    "StatusCode resp = 200"
    "\<forall>j<n. snd (RespBody resp j) = None" "snd (RespBody resp n) \<noteq> None"
    and s: "s = delivered (RespBody resp) 0 n"
    and evs: "evs = [Log (''Fetching PR changes for '' @ owner @ ''/'' @ repo @ '' #'' @ Itoa prNumber),
               HTTPDo (github_request config req0),
               Log ''PR changes fetched successfully'']"
    by blast
  show ?L unfolding s evs by (rule fetchPRChanges_ok [OF h])
next
  assume l: ?L
  obtain config where c: "loadConfig w = Inr config"
    using l by (cases "loadConfig w") (simp_all add: fetchPRChanges_def Let_def)
  obtain req0 where r: "http_NewRequest w ''GET'' (github_url owner repo prNumber) = Inr req0"
    using l c by (cases "http_NewRequest w ''GET'' (github_url owner repo prNumber)")
      (simp_all add: fetchPRChanges_def Let_def)
  obtain resp where d: "http_Do w (github_request config req0) = Inr resp"
    using l c r by (cases "http_Do w (github_request config req0)")
      (simp_all add: fetchPRChanges_def Let_def)
  have st: "StatusCode resp = 200"
    using l c r d by (auto simp add: fetchPRChanges_def Let_def split: if_splits option.splits)
  have rl: "read_loop (RespBody resp) 0 [] = Some s"
    and ev: "evs = [Log (''Fetching PR changes for '' @ owner @ ''/'' @ repo @ '' #'' @ Itoa prNumber),
               HTTPDo (github_request config req0),
               Log ''PR changes fetched successfully'']"
    using l c r d st by (auto simp add: fetchPRChanges_def Let_def split: option.splits)
  from read_loop_Some [OF rl] obtain n where
    "\<forall>j<n. snd (RespBody resp j) = None" "snd (RespBody resp n) \<noteq> None"
    "s = delivered (RespBody resp) 0 n" by blast
  with c r d st ev show ?R by blast
qed

text \<open>
  Witness of C4: the diff arrives in two reads, the second delivering its bytes together
  with the end of the stream; the fetch returns the two chunks joined.
\<close>

theorem fetchPRChanges_returns_delivered_bytes_witness:
  "ex_diff_body 0 = (''diff --git '', None)
   \<and> ex_diff_body 1 = (''a/x b/x'', Some EOF)
   \<and> map_option fst (fetchPRChanges
       (ex_world ex_getenv ''openai'' (Inr \<lparr>StatusCode = 200, RespBody = ex_diff_body\<rparr>) (Inr ex_lgtm))
       ''octo'' ''demo'' 7) = Some (Returns (Inr ''diff --git a/x b/x''))"
proof -
  let ?w = "ex_world ex_getenv ''openai'' (Inr \<lparr>StatusCode = 200, RespBody = ex_diff_body\<rparr>) (Inr ex_lgtm)"
  let ?resp = "\<lparr>StatusCode = 200, RespBody = ex_diff_body\<rparr>"
  have "loadConfig ?w = Inr \<lparr>APIKey = ex_getenv ''API_KEY'', OpenAIKey = ex_getenv ''OPENAI_API_KEY'',
          GithubToken = ex_getenv ''GITHUB_TOKEN'', Port = ex_getenv ''PORT''\<rparr> \<and>
        http_NewRequest ?w ''GET'' (github_url ''octo'' ''demo'' 7)
          = Inr \<lparr>Method = ''GET'', URL = github_url ''octo'' ''demo'' 7, Header = Map.empty, Body = []\<rparr> \<and>
        http_Do ?w (github_request \<lparr>APIKey = ex_getenv ''API_KEY'', OpenAIKey = ex_getenv ''OPENAI_API_KEY'',
          GithubToken = ex_getenv ''GITHUB_TOKEN'', Port = ex_getenv ''PORT''\<rparr>
            \<lparr>Method = ''GET'', URL = github_url ''octo'' ''demo'' 7, Header = Map.empty, Body = []\<rparr>) = Inr ?resp \<and>
        StatusCode ?resp = 200 \<and>
        (\<forall>j<Suc 0. snd (RespBody ?resp j) = None) \<and> snd (RespBody ?resp (Suc 0)) \<noteq> None \<and>
        ''diff --git a/x b/x'' = delivered (RespBody ?resp) 0 (Suc 0)"
    by (simp add: loadConfig_ex_world ex_NewRequest ex_http_Do ex_diff_delivered)
       (simp add: ex_diff_body_def)
  then have "fetchPRChanges ?w ''octo'' ''demo'' 7 = Some (Returns (Inr ''diff --git a/x b/x''),
       [Log (''Fetching PR changes for '' @ ''octo'' @ ''/'' @ ''demo'' @ '' #'' @ Itoa 7),
        HTTPDo (github_request \<lparr>APIKey = ex_getenv ''API_KEY'', OpenAIKey = ex_getenv ''OPENAI_API_KEY'',
          GithubToken = ex_getenv ''GITHUB_TOKEN'', Port = ex_getenv ''PORT''\<rparr>
            \<lparr>Method = ''GET'', URL = github_url ''octo'' ''demo'' 7, Header = Map.empty, Body = []\<rparr>),
        Log ''PR changes fetched successfully''])"
    unfolding fetchPRChanges_returns_delivered_bytes by blast
  then show ?thesis by (simp add: ex_diff_body_def)
qed

text \<open>
  C2. The claim asks that a failed read of the body of a non-success response surfaces
  as a fetch error. The source calls \<^verbatim>\<open>log.Fatal\<close> there: with status 404 and a body
  whose first read fails, \<open>fetchPRChanges\<close> ends the process instead of returning an
  error.
\<close>

theorem fetchPRChanges_exits_on_diagnostic_read_failure:
  "StatusCode \<lparr>StatusCode = 404, RespBody = ex_broken_body\<rparr> = 404
   \<and> ex_broken_body 0 = ([], Some (Errorf ''unexpected EOF''))
   \<and> map_option fst (fetchPRChanges
        (ex_world ex_getenv ''openai'' (Inr \<lparr>StatusCode = 404, RespBody = ex_broken_body\<rparr>)
           (Inr ex_lgtm))
        ''octo'' ''demo'' 7) = Some Exits"
  using fetchPRChanges_fatal [OF loadConfig_ex_world ex_NewRequest ex_http_Do,
      of "\<lparr>StatusCode = 404, RespBody = ex_broken_body\<rparr>" 0 "''unexpected EOF''"]
  by (simp add: ex_broken_body_def)

text \<open>
  C5. The claim asks for a 500 response carrying the upstream status for every
  non-success status. For the same input as in C2 (status 404, the read of the body
  fails) an authenticated, well-formed POST gets no response: the process ends. With a
  body that can be read to its end the response is as claimed
  (\<open>handler_upstream_status\<close>).
\<close>

theorem handler_exits_on_upstream_status_with_broken_body:
  "StatusCode \<lparr>StatusCode = 404, RespBody = ex_broken_body\<rparr> = 404
   \<and> map_option fst (analyze_pr_route
        (ex_world ex_getenv ''openai'' (Inr \<lparr>StatusCode = 404, RespBody = ex_broken_body\<rparr>)
           (Inr ex_lgtm))
        (ex_call ''POST'' (Some [''s3cret'']) ''openai'')) = Some Exits
   \<and> status_of (analyze_pr_route
        (ex_world ex_getenv ''openai'' (Inr \<lparr>StatusCode = 404, RespBody = ex_broken_body\<rparr>)
           (Inr ex_lgtm))
        (ex_call ''POST'' (Some [''s3cret'']) ''openai'')) = None"
proof -
  let ?w = "ex_world ex_getenv ''openai'' (Inr \<lparr>StatusCode = 404, RespBody = ex_broken_body\<rparr>)
              (Inr ex_lgtm)"
  let ?r = "ex_call ''POST'' (Some [''s3cret'']) ''openai''"
  have "map_option fst (fetchPRChanges ?w ''octo'' ''demo'' 7) = Some Exits"
    using fetchPRChanges_fatal [OF loadConfig_ex_world ex_NewRequest ex_http_Do,
      of "\<lparr>StatusCode = 404, RespBody = ex_broken_body\<rparr>" 0 "''unexpected EOF''"]
    by (simp add: ex_broken_body_def)
  then obtain evs where f: "fetchPRChanges ?w ''octo'' ''demo'' 7 = Some (Exits, evs)"
    by (cases "fetchPRChanges ?w ''octo'' ''demo'' 7") auto
  have "analyze_pr_route ?w ?r = analyzePRHandler ?w ?r"
    by (rule route_authorized [OF loadConfig_ex_world]) (simp add: ex_key ex_getenv_def)
  with f show ?thesis
    by (simp add: handler_post [OF ex_method ex_decode] status_of_def)
qed

section \<open>The analysis dispatcher\<close>

text \<open>
  C3. The claim asks for a provider error when the provider returns no choice. The source
  indexes the empty list: with a provider response whose \<open>Choices\<close> is empty,
  \<open>analyzeChanges\<close> panics, and so does the handling of an authenticated POST.
\<close>

theorem analyzeChanges_panics_on_no_choice:
  "Choices \<lparr>Choices = []\<rparr> = []
   \<and> fst (analyzeChanges
        (ex_world ex_getenv ''openai'' (Inr \<lparr>StatusCode = 200, RespBody = ex_diff_body\<rparr>)
           (Inr \<lparr>Choices = []\<rparr>))
        ''diff --git a/x b/x'' ''openai'') = Panics ''index out of range [0] with length 0''
   \<and> map_option fst (analyze_pr_route
        (ex_world ex_getenv ''openai'' (Inr \<lparr>StatusCode = 200, RespBody = ex_diff_body\<rparr>)
           (Inr \<lparr>Choices = []\<rparr>))
        (ex_call ''POST'' (Some [''s3cret'']) ''openai''))
      = Some (Panics ''index out of range [0] with length 0'')"
proof -
  let ?w = "ex_world ex_getenv ''openai'' (Inr \<lparr>StatusCode = 200, RespBody = ex_diff_body\<rparr>)
              (Inr \<lparr>Choices = []\<rparr>)"
  let ?r = "ex_call ''POST'' (Some [''s3cret'']) ''openai''"
  have a: "analyzeChanges ?w ''diff --git a/x b/x'' ''openai'' =
             (Panics ''index out of range [0] with length 0'',
              [ChatCompletion (ex_getenv ''OPENAI_API_KEY'') (chat_request ''diff --git a/x b/x'')])"
    by (simp add: analyzeChanges_def loadConfig_ex_world) (simp add: ex_world_def)
  have "analyze_pr_route ?w ?r = analyzePRHandler ?w ?r"
    by (rule route_authorized [OF loadConfig_ex_world]) (simp add: ex_key ex_getenv_def)
  with a show ?thesis
    by (simp add: handler_post [OF ex_method ex_decode] ex_fetch_diff)
qed

lemma sublist_claude_message:
  "sublist ''not implemented'' ''Claude integration not implemented yet''"
  unfolding sublist_def
  by (rule exI [of _ "''Claude integration ''"], rule exI [of _ "'' yet''"]) simp

text \<open>
  The tag \<^verbatim>\<open>claude\<close> on the runs in which the fetch returns. For an authenticated,
  well-formed POST with \<^verbatim>\<open>model_type\<close> \<^verbatim>\<open>claude\<close>, the
  dispatcher returns, for every diff text, the error
  \<^verbatim>\<open>Claude integration not implemented yet\<close>, which contains \<^verbatim>\<open>not implemented\<close>, and
  calls no provider. Whatever diff the fetch returns, the response is 500 with that
  message; when the fetch returns an error the response is 500 as well.
\<close>

lemma claude_tag_is_unimplemented:
  assumes "loadConfig w = Inr config"
    and "Header_Get (Header r) ''X-API-Key'' = APIKey config"
    and "Method r = ''POST''"
    and "json_Decode w (Body r) = Inr req"
    and "ModelType req = ''claude''"
  shows "(\<forall>changes. analyzeChanges w changes (ModelType req) =
            (Returns (Inl (Errorf ''Claude integration not implemented yet'')), []))
       \<and> sublist ''not implemented'' (Error (Errorf ''Claude integration not implemented yet''))
       \<and> (\<forall>changes evs.
            fetchPRChanges w (Owner req) (Repo req) (PRNumber req)
              = Some (Returns (Inr changes), evs) \<longrightarrow>
            analyze_pr_route w r =
              Some (Returns (http_Error
                  ''Error analyzing changes: Claude integration not implemented yet'' 500), evs))
       \<and> (\<forall>res evs.
            fetchPRChanges w (Owner req) (Repo req) (PRNumber req) = Some (Returns res, evs) \<longrightarrow>
            status_of (analyze_pr_route w r) = Some 500)"
proof -
  have a: "analyzeChanges w changes (ModelType req) =
            (Returns (Inl (Errorf ''Claude integration not implemented yet'')), [])" for changes
    using assms(1,5) by (simp add: analyzeChanges_def)
  have b: "analyze_pr_route w r = analyzePRHandler w r"
    using assms(1,2) by (rule route_authorized)
  show ?thesis
    by (auto simp add: a b handler_post [OF assms(3,4)] sublist_claude_message status_of_def
        Code_http_Error split: sum.splits)
qed

text \<open>
  An instance: a POST with the configured key and the tag \<^verbatim>\<open>claude\<close>, once with the
  hosting API delivering a diff and once with the hosting API answering 404.
\<close>

lemma claude_tag_is_unimplemented_instance:
  "written_of (analyze_pr_route
      (ex_world ex_getenv ''claude'' (Inr \<lparr>StatusCode = 200, RespBody = ex_diff_body\<rparr>) (Inr ex_lgtm))
      (ex_call ''POST'' (Some [''s3cret'']) ''claude''))
    = Some (Text (''Error analyzing changes: Claude integration not implemented yet'' @ [CHR 0x0A]))
   \<and> status_of (analyze_pr_route
      (ex_world ex_getenv ''claude'' (Inr \<lparr>StatusCode = 200, RespBody = ex_diff_body\<rparr>) (Inr ex_lgtm))
      (ex_call ''POST'' (Some [''s3cret'']) ''claude'')) = Some 500
   \<and> status_of (analyze_pr_route
      (ex_world ex_getenv ''claude'' (Inr \<lparr>StatusCode = 404, RespBody = ex_text_body\<rparr>) (Inr ex_lgtm))
      (ex_call ''POST'' (Some [''s3cret'']) ''claude'')) = Some 500"
proof -
  have k: "Header_Get (Header (ex_call ''POST'' (Some [''s3cret'']) ''claude'')) ''X-API-Key''
        = APIKey \<lparr>APIKey = ex_getenv ''API_KEY'', OpenAIKey = ex_getenv ''OPENAI_API_KEY'',
                  GithubToken = ex_getenv ''GITHUB_TOKEN'', Port = ex_getenv ''PORT''\<rparr>"
    by (simp add: ex_key ex_getenv_def)
  have t: "ModelType \<lparr>Owner = ''octo'', Repo = ''demo'', PRNumber = 7, ModelType = ''claude''\<rparr>
        = ''claude''"
    by simp
  have "map_option fst (fetchPRChanges
      (ex_world ex_getenv ''claude'' (Inr \<lparr>StatusCode = 404, RespBody = ex_text_body\<rparr>) (Inr ex_lgtm))
      ''octo'' ''demo'' 7) =
      Some (Returns (Inl (Errorf (''GitHub API returned status: '' @ Itoa 404))))"
    using fetchPRChanges_status_error [OF loadConfig_ex_world ex_NewRequest ex_http_Do,
      of "\<lparr>StatusCode = 404, RespBody = ex_text_body\<rparr>" 0]
    by (simp add: ex_text_body_def)
  then obtain evs where e: "fetchPRChanges
      (ex_world ex_getenv ''claude'' (Inr \<lparr>StatusCode = 404, RespBody = ex_text_body\<rparr>) (Inr ex_lgtm))
      ''octo'' ''demo'' 7 =
      Some (Returns (Inl (Errorf (''GitHub API returned status: '' @ Itoa 404))), evs)"
    by (cases "fetchPRChanges
      (ex_world ex_getenv ''claude'' (Inr \<lparr>StatusCode = 404, RespBody = ex_text_body\<rparr>) (Inr ex_lgtm))
      ''octo'' ''demo'' 7") auto
  show ?thesis
    using claude_tag_is_unimplemented [OF loadConfig_ex_world k ex_method ex_decode t,
             of "Inr \<lparr>StatusCode = 200, RespBody = ex_diff_body\<rparr>" "Inr ex_lgtm"]
          claude_tag_is_unimplemented [OF loadConfig_ex_world k ex_method ex_decode t,
             of "Inr \<lparr>StatusCode = 404, RespBody = ex_text_body\<rparr>" "Inr ex_lgtm"]
    by (simp add: ex_fetch_diff e status_of_def written_of_def Code_http_Error
        Written_http_Error)
qed

text \<open>
  An unsupported tag on the runs in which the fetch returns. For an authenticated,
  well-formed POST whose \<^verbatim>\<open>model_type\<close> is neither
  \<^verbatim>\<open>openai\<close> nor \<^verbatim>\<open>claude\<close>, the dispatcher returns, for every diff text, the error
  \<^verbatim>\<open>unsupported model type: \<close> followed by exactly that tag, and calls no provider.
  Whatever diff the fetch returns, the response is 500 with that message; when the fetch
  returns an error the response is 500 as well.
\<close>

lemma unsupported_tag_is_named:
  assumes "loadConfig w = Inr config"
    and "Header_Get (Header r) ''X-API-Key'' = APIKey config"
    and "Method r = ''POST''"
    and "json_Decode w (Body r) = Inr req"
    and "ModelType req \<noteq> ''openai''"
    and "ModelType req \<noteq> ''claude''"
  shows "(\<forall>changes. analyzeChanges w changes (ModelType req) =
            (Returns (Inl (Errorf (''unsupported model type: '' @ ModelType req))), []))
       \<and> (\<forall>changes evs.
            fetchPRChanges w (Owner req) (Repo req) (PRNumber req)
              = Some (Returns (Inr changes), evs) \<longrightarrow>
            analyze_pr_route w r =
              Some (Returns (http_Error
                  (''Error analyzing changes: unsupported model type: '' @ ModelType req) 500), evs))
       \<and> (\<forall>res evs.
            fetchPRChanges w (Owner req) (Repo req) (PRNumber req) = Some (Returns res, evs) \<longrightarrow>
            status_of (analyze_pr_route w r) = Some 500)"
proof -
  have a: "analyzeChanges w changes (ModelType req) =
            (Returns (Inl (Errorf (''unsupported model type: '' @ ModelType req))), [])" for changes
    using assms(1,5,6) by (simp add: analyzeChanges_def)
  have b: "analyze_pr_route w r = analyzePRHandler w r"
    using assms(1,2) by (rule route_authorized)
  show ?thesis
    by (auto simp add: a b handler_post [OF assms(3,4)] status_of_def
        Code_http_Error split: sum.splits)
qed

text \<open>An instance: a POST with the configured key and the tag \<^verbatim>\<open>llama\<close>.\<close>

lemma unsupported_tag_is_named_instance:
  "written_of (analyze_pr_route
      (ex_world ex_getenv ''llama'' (Inr \<lparr>StatusCode = 200, RespBody = ex_diff_body\<rparr>) (Inr ex_lgtm))
      (ex_call ''POST'' (Some [''s3cret'']) ''llama''))
    = Some (Text (''Error analyzing changes: unsupported model type: llama'' @ [CHR 0x0A]))
   \<and> status_of (analyze_pr_route
      (ex_world ex_getenv ''llama'' (Inr \<lparr>StatusCode = 200, RespBody = ex_diff_body\<rparr>) (Inr ex_lgtm))
      (ex_call ''POST'' (Some [''s3cret'']) ''llama'')) = Some 500"
proof -
  have k: "Header_Get (Header (ex_call ''POST'' (Some [''s3cret'']) ''llama'')) ''X-API-Key''
        = APIKey \<lparr>APIKey = ex_getenv ''API_KEY'', OpenAIKey = ex_getenv ''OPENAI_API_KEY'',
                  GithubToken = ex_getenv ''GITHUB_TOKEN'', Port = ex_getenv ''PORT''\<rparr>"
    by (simp add: ex_key ex_getenv_def)
  have t: "ModelType \<lparr>Owner = ''octo'', Repo = ''demo'', PRNumber = 7, ModelType = ''llama''\<rparr>
        \<noteq> ''openai''"
    and u: "ModelType \<lparr>Owner = ''octo'', Repo = ''demo'', PRNumber = 7, ModelType = ''llama''\<rparr>
        \<noteq> ''claude''"
    by simp_all
  show ?thesis
    using unsupported_tag_is_named [OF loadConfig_ex_world k ex_method ex_decode t u,
             of "Inr \<lparr>StatusCode = 200, RespBody = ex_diff_body\<rparr>" "Inr ex_lgtm"]
    by (simp add: ex_fetch_diff status_of_def written_of_def Code_http_Error Written_http_Error)
qed

text \<open>
  The run that the two lemmas above leave out: the hosting API answers 404 and the read
  of the body fails, so \<open>fetchPRChanges\<close> ends the process and the dispatcher is never
  reached, whatever the tag of the request.
\<close>

lemma ex_route_broken_body:
  "map_option fst (analyze_pr_route
       (ex_world ex_getenv tag (Inr \<lparr>StatusCode = 404, RespBody = ex_broken_body\<rparr>) provider)
       (ex_call ''POST'' (Some [''s3cret'']) tag)) = Some Exits"
proof -
  let ?w = "ex_world ex_getenv tag (Inr \<lparr>StatusCode = 404, RespBody = ex_broken_body\<rparr>) provider"
  let ?r = "ex_call ''POST'' (Some [''s3cret'']) tag"
  have "map_option fst (fetchPRChanges ?w ''octo'' ''demo'' 7) = Some Exits"
    using fetchPRChanges_fatal [OF loadConfig_ex_world ex_NewRequest ex_http_Do,
      of "\<lparr>StatusCode = 404, RespBody = ex_broken_body\<rparr>" 0 "''unexpected EOF''"]
    by (simp add: ex_broken_body_def)
  then obtain evs where f: "fetchPRChanges ?w ''octo'' ''demo'' 7 = Some (Exits, evs)"
    by (cases "fetchPRChanges ?w ''octo'' ''demo'' 7") auto
  have "analyze_pr_route ?w ?r = analyzePRHandler ?w ?r"
    by (rule route_authorized [OF loadConfig_ex_world]) (simp add: ex_key ex_getenv_def)
  with f show ?thesis
    by (simp add: handler_post [OF ex_method ex_decode])
qed

text \<open>
  C6. The claim asks that every authenticated, well-formed request with the tag
  \<^verbatim>\<open>claude\<close> is answered 500. The dispatcher does return the error
  \<^verbatim>\<open>Claude integration not implemented yet\<close> for the tag, but for the same input as in
  C2 (status 404, the read of the body fails) such a request gets no response: the process
  ends before the dispatcher runs.
\<close>

theorem claude_request_exits_on_broken_body:
  "json_Decode
       (ex_world ex_getenv ''claude'' (Inr \<lparr>StatusCode = 404, RespBody = ex_broken_body\<rparr>)
          (Inr ex_lgtm))
       (Body (ex_call ''POST'' (Some [''s3cret'']) ''claude''))
     = Inr \<lparr>Owner = ''octo'', Repo = ''demo'', PRNumber = 7, ModelType = ''claude''\<rparr>
   \<and> fst (analyzeChanges
        (ex_world ex_getenv ''claude'' (Inr \<lparr>StatusCode = 404, RespBody = ex_broken_body\<rparr>)
           (Inr ex_lgtm))
        [] ''claude'') = Returns (Inl (Errorf ''Claude integration not implemented yet''))
   \<and> map_option fst (analyze_pr_route
        (ex_world ex_getenv ''claude'' (Inr \<lparr>StatusCode = 404, RespBody = ex_broken_body\<rparr>)
           (Inr ex_lgtm))
        (ex_call ''POST'' (Some [''s3cret'']) ''claude'')) = Some Exits
   \<and> status_of (analyze_pr_route
        (ex_world ex_getenv ''claude'' (Inr \<lparr>StatusCode = 404, RespBody = ex_broken_body\<rparr>)
           (Inr ex_lgtm))
        (ex_call ''POST'' (Some [''s3cret'']) ''claude'')) = None"
proof -
  let ?h = "analyze_pr_route
        (ex_world ex_getenv ''claude'' (Inr \<lparr>StatusCode = 404, RespBody = ex_broken_body\<rparr>)
           (Inr ex_lgtm))
        (ex_call ''POST'' (Some [''s3cret'']) ''claude'')"
  have e: "map_option fst ?h = Some Exits" by (rule ex_route_broken_body)
  then obtain evs where "?h = Some (Exits, evs)" by (cases ?h) auto
  then have "status_of ?h = None" by (simp add: status_of_def)
  with e show ?thesis
    by (simp add: ex_decode analyzeChanges_def loadConfig_ex_world)
qed

text \<open>
  C7. The claim asks that every authenticated, well-formed request with a tag other than
  \<^verbatim>\<open>openai\<close> and \<^verbatim>\<open>claude\<close> is answered 500. The dispatcher does return the error
  naming the tag, here \<^verbatim>\<open>llama\<close>, but for the same input as in C2 (status 404, the read
  of the body fails) such a request gets no response: the process ends before the
  dispatcher runs.
\<close>

theorem unsupported_request_exits_on_broken_body:
  "json_Decode
       (ex_world ex_getenv ''llama'' (Inr \<lparr>StatusCode = 404, RespBody = ex_broken_body\<rparr>)
          (Inr ex_lgtm))
       (Body (ex_call ''POST'' (Some [''s3cret'']) ''llama''))
     = Inr \<lparr>Owner = ''octo'', Repo = ''demo'', PRNumber = 7, ModelType = ''llama''\<rparr>
   \<and> fst (analyzeChanges
        (ex_world ex_getenv ''llama'' (Inr \<lparr>StatusCode = 404, RespBody = ex_broken_body\<rparr>)
           (Inr ex_lgtm))
        [] ''llama'') = Returns (Inl (Errorf ''unsupported model type: llama''))
   \<and> map_option fst (analyze_pr_route
        (ex_world ex_getenv ''llama'' (Inr \<lparr>StatusCode = 404, RespBody = ex_broken_body\<rparr>)
           (Inr ex_lgtm))
        (ex_call ''POST'' (Some [''s3cret'']) ''llama'')) = Some Exits
   \<and> status_of (analyze_pr_route
        (ex_world ex_getenv ''llama'' (Inr \<lparr>StatusCode = 404, RespBody = ex_broken_body\<rparr>)
           (Inr ex_lgtm))
        (ex_call ''POST'' (Some [''s3cret'']) ''llama'')) = None"
proof -
  let ?h = "analyze_pr_route
        (ex_world ex_getenv ''llama'' (Inr \<lparr>StatusCode = 404, RespBody = ex_broken_body\<rparr>)
           (Inr ex_lgtm))
        (ex_call ''POST'' (Some [''s3cret'']) ''llama'')"
  have e: "map_option fst ?h = Some Exits" by (rule ex_route_broken_body)
  then obtain evs where "?h = Some (Exits, evs)" by (cases ?h) auto
  then have "status_of ?h = None" by (simp add: status_of_def)
  with e show ?thesis
    by (simp add: ex_decode analyzeChanges_def loadConfig_ex_world)
qed

section \<open>The successful analysis\<close>

text \<open>
  C9. For an authenticated POST with \<^verbatim>\<open>model_type\<close> \<^verbatim>\<open>openai\<close> whose diff fetch
  returns the text \<open>T\<close> and whose provider call, made with the request built from \<open>T\<close>,
  returns a first choice with content \<open>A\<close>, the response is 200 with a JSON body whose
  \<open>analysis\<close> is \<open>A\<close>, whose \<open>model_used\<close> is the tag of the request, \<^verbatim>\<open>openai\<close>, and
  whose \<open>timestamp\<close> is the clock read while handling.
\<close>

theorem openai_success_response:
  assumes "loadConfig w = Inr config"
    and "Header_Get (Header r) ''X-API-Key'' = APIKey config"
    and "Method r = ''POST''"
    and "json_Decode w (Body r) = Inr req"
    and "ModelType req = ''openai''"
    and "fetchPRChanges w (Owner req) (Repo req) (PRNumber req) = Some (Returns (Inr T), evs)"
    and "CreateChatCompletion w (OpenAIKey config) (chat_request T) = Inr resp"
    and "Choices resp = c # cs"
    and "Content (Message c) = A"
  shows "analyze_pr_route w r =
           Some (Returns \<lparr>Code = 200, ContentType = ''application/json'',
                          Written = JSON \<lparr>Analysis = A, Timestamp = time_Now w,
                                          ModelUsed = ModelType req\<rparr>\<rparr>,
                 evs @ [ChatCompletion (OpenAIKey config) (chat_request T)])
       \<and> ModelType req = ''openai''"
proof -
  have a: "analyzeChanges w T ''openai'' =
             (Returns (Inr A), [ChatCompletion (OpenAIKey config) (chat_request T)])"
    using assms(1,7,8,9) by (simp add: analyzeChanges_def)
  have b: "analyze_pr_route w r = analyzePRHandler w r"
    using assms(1,2) by (rule route_authorized)
  show ?thesis
    using assms(5,6) by (simp add: a b handler_post [OF assms(3,4)])
qed

text \<open>
  Witness of C9: the hosting API delivers the diff in two reads and the provider answers
  with one choice, \<^verbatim>\<open>LGTM\<close>.
\<close>

theorem openai_success_response_witness:
  "status_of (analyze_pr_route
      (ex_world ex_getenv ''openai'' (Inr \<lparr>StatusCode = 200, RespBody = ex_diff_body\<rparr>) (Inr ex_lgtm))
      (ex_call ''POST'' (Some [''s3cret'']) ''openai'')) = Some 200
   \<and> written_of (analyze_pr_route
      (ex_world ex_getenv ''openai'' (Inr \<lparr>StatusCode = 200, RespBody = ex_diff_body\<rparr>) (Inr ex_lgtm))
      (ex_call ''POST'' (Some [''s3cret'']) ''openai''))
     = Some (JSON \<lparr>Analysis = ''LGTM'', Timestamp = 1700000000000000000, ModelUsed = ''openai''\<rparr>)"
proof -
  have k: "Header_Get (Header (ex_call ''POST'' (Some [''s3cret'']) ''openai'')) ''X-API-Key''
        = APIKey \<lparr>APIKey = ex_getenv ''API_KEY'', OpenAIKey = ex_getenv ''OPENAI_API_KEY'',
                  GithubToken = ex_getenv ''GITHUB_TOKEN'', Port = ex_getenv ''PORT''\<rparr>"
    by (simp add: ex_key ex_getenv_def)
  have t: "ModelType \<lparr>Owner = ''octo'', Repo = ''demo'', PRNumber = 7, ModelType = ''openai''\<rparr>
        = ''openai''"
    by simp
  have f: "fetchPRChanges
      (ex_world ex_getenv ''openai'' (Inr \<lparr>StatusCode = 200, RespBody = ex_diff_body\<rparr>) (Inr ex_lgtm))
      (Owner \<lparr>Owner = ''octo'', Repo = ''demo'', PRNumber = 7, ModelType = ''openai''\<rparr>)
      (Repo \<lparr>Owner = ''octo'', Repo = ''demo'', PRNumber = 7, ModelType = ''openai''\<rparr>)
      (PRNumber \<lparr>Owner = ''octo'', Repo = ''demo'', PRNumber = 7, ModelType = ''openai''\<rparr>)
      = Some (Returns (Inr ''diff --git a/x b/x''),
       [Log (''Fetching PR changes for octo/demo #'' @ Itoa 7),
        HTTPDo (github_request
                 \<lparr>APIKey = ex_getenv ''API_KEY'', OpenAIKey = ex_getenv ''OPENAI_API_KEY'',
                  GithubToken = ex_getenv ''GITHUB_TOKEN'', Port = ex_getenv ''PORT''\<rparr>
                 \<lparr>Method = ''GET'', URL = github_url ''octo'' ''demo'' 7, Header = Map.empty,
                  Body = []\<rparr>),
        Log ''PR changes fetched successfully''])"
    by (simp add: ex_fetch_diff)
  have p: "CreateChatCompletion
      (ex_world ex_getenv ''openai'' (Inr \<lparr>StatusCode = 200, RespBody = ex_diff_body\<rparr>) (Inr ex_lgtm))
      (OpenAIKey \<lparr>APIKey = ex_getenv ''API_KEY'', OpenAIKey = ex_getenv ''OPENAI_API_KEY'',
                  GithubToken = ex_getenv ''GITHUB_TOKEN'', Port = ex_getenv ''PORT''\<rparr>)
      (chat_request ''diff --git a/x b/x'') = Inr ex_lgtm"
    by (simp add: ex_world_def)
  have c: "Choices ex_lgtm = [\<lparr>Message = \<lparr>Role = ''assistant'', Content = ''LGTM''\<rparr>\<rparr>]"
    by (simp add: ex_lgtm_def)
  have m: "Content (Message \<lparr>Message = \<lparr>Role = ''assistant'', Content = ''LGTM''\<rparr>\<rparr>) = ''LGTM''"
    by simp
  show ?thesis
    using openai_success_response [OF loadConfig_ex_world k ex_method ex_decode t f p c m]
    by (simp add: status_of_def written_of_def) (simp add: ex_world_def)
qed

end
